theory Spec2Isabelle
  imports Main "HOL-Library.Word" "HOL-Library.Sublist"
begin

section \<open>JavaScript values as the chat component sees them\<close>

text \<open>
  A JavaScript string is a sequence of UTF-16 code units. The component's literals hold
  characters outside ASCII (the warning sign U+26A0, the waving hand U+1F44B as a
  surrogate pair) and \<open>String.prototype.trim\<close> strips code units such as U+00A0 and
  U+FEFF, so strings are lists of 16-bit words, not of bytes.
\<close>

type_synonym jschar = "16 word"
type_synonym jsstring = "jschar list"

definition ascii :: "string \<Rightarrow> jsstring" where
  "ascii cs = map (\<lambda>c. of_nat (of_char c)) cs"

text \<open>
  ECMAScript \<open>WhiteSpace\<close> and \<open>LineTerminator\<close> code points, all of them in the basic
  plane: TAB, LF, VT, FF, CR, SP, NBSP, U+1680, U+2000..U+200A, LS, PS, U+202F, U+205F,
  U+3000 and the byte order mark.
\<close>

definition is_white_space :: "jschar \<Rightarrow> bool" where
  "is_white_space c =
     (c = 0x09 \<or> c = 0x0A \<or> c = 0x0B \<or> c = 0x0C \<or> c = 0x0D \<or> c = 0x20 \<or> c = 0xA0
      \<or> c = 0x1680 \<or> (0x2000 \<le> c \<and> c \<le> 0x200A) \<or> c = 0x2028 \<or> c = 0x2029
      \<or> c = 0x202F \<or> c = 0x205F \<or> c = 0x3000 \<or> c = 0xFEFF)"

text \<open>\<open>String.prototype.trim\<close>: white space is dropped at both ends, none inside.\<close>

definition trim :: "jsstring \<Rightarrow> jsstring" where
  "trim s = rev (dropWhile is_white_space (rev (dropWhile is_white_space s)))"

text \<open>
  \<open>Number.prototype.toString\<close> on the integer that \<open>Date.now()\<close> returns: decimal
  digits, a minus sign for a clock set before 1970. Time values stay below 8.64e15 in
  magnitude, so the exponent form never appears.
\<close>

fun digits :: "nat \<Rightarrow> jsstring" where
  "digits n = (if n < 10 then [0x30 + of_nat n] else digits (n div 10) @ [0x30 + of_nat (n mod 10)])"

declare digits.simps [simp del]

definition int_toString :: "int \<Rightarrow> jsstring" where
  "int_toString i = (if i < 0 then 0x2D # digits (nat (- i)) else digits (nat i))"

text \<open>
  The body of the server's reply is untyped (\<open>const data = await res.json()\<close>), so it
  is any JSON value. A number is kept as the two things this component can observe of a
  double: whether it is truthy (neither zero nor NaN) and what \<open>ToString\<close> prints for it.
  \<open>JUndefined\<close> is what reading a missing property gives; JSON itself never holds it.
\<close>

datatype jsnum = JsNum (num_truthy: bool) (num_shown: jsstring)

datatype jsval =
    JUndefined
  | JNull
  | JBool bool
  | JNum jsnum
  | JStr jsstring
  | JArr "jsval list"
  | JObj "(jsstring \<times> jsval) list"

text \<open>\<open>ToBoolean\<close>: every object and array is truthy, also an empty one.\<close>

fun truthy :: "jsval \<Rightarrow> bool" where
  "truthy JUndefined = False"
| "truthy JNull = False"
| "truthy (JBool b) = b"
| "truthy (JNum n) = num_truthy n"
| "truthy (JStr s) = (s \<noteq> [])"
| "truthy (JArr _) = True"
| "truthy (JObj _) = True"

text \<open>
  What can be thrown while the handler or one of its updaters runs: the rejection of
  \<open>fetch\<close>, the rejection of \<open>res.json()\<close>, the TypeError of reading a property off
  \<open>null\<close>, and the TypeError of converting to a string an object that cannot be converted.
\<close>

datatype thrown =
    FetchFailed jsstring
  | BodyNotJson jsstring
  | TypeErrorOnNull
  | TypeErrorToPrimitive

text \<open>
  \<open>ToString\<close>, as the template literal applies it; \<open>Inl\<close> is the exception it throws.
  An object parsed from JSON holds no function, so one with an own \<open>toString\<close> key has
  no callable \<open>toString\<close>, and its \<open>valueOf\<close> is either an own key (not callable) or
  \<open>Object.prototype.valueOf\<close> (which returns the object): \<open>OrdinaryToPrimitive\<close> throws
  a TypeError. Every other object prints as \<open>[object Object]\<close>. An array is printed
  by \<open>Array.prototype.join\<close>: its elements in order, separated by commas, \<open>null\<close> and
  \<open>undefined\<close> elements as nothing, the others by \<open>ToString\<close>, whose exception ends
  the whole conversion.
\<close>

fun join_comma :: "jsstring list \<Rightarrow> jsstring" where
  "join_comma [] = []"
| "join_comma [s] = s"
| "join_comma (s # t # ss) = s @ 0x2C # join_comma (t # ss)"

fun toString :: "jsval \<Rightarrow> thrown + jsstring"
  and elements :: "jsval list \<Rightarrow> thrown + jsstring list" where
  "toString JUndefined = Inr (ascii ''undefined'')"
| "toString JNull = Inr (ascii ''null'')"
| "toString (JBool b) = Inr (if b then ascii ''true'' else ascii ''false'')"
| "toString (JNum n) = Inr (num_shown n)"
| "toString (JStr s) = Inr s"
| "toString (JArr vs) =
     (case elements vs of Inl e \<Rightarrow> Inl e | Inr ss \<Rightarrow> Inr (join_comma ss))"
| "toString (JObj kvs) =
     (case map_of kvs (ascii ''toString'') of
        Some _ \<Rightarrow> Inl TypeErrorToPrimitive
      | None \<Rightarrow> Inr (ascii ''[object Object]''))"
| "elements [] = Inr []"
| "elements (v # vs) =
     (case (if v = JNull \<or> v = JUndefined then Inr [] else toString v) of
        Inl e \<Rightarrow> Inl e
      | Inr s \<Rightarrow> (case elements vs of Inl e \<Rightarrow> Inl e | Inr ss \<Rightarrow> Inr (s # ss)))"

text \<open>
  Reading one of the three properties \<open>response\<close>, \<open>annotated_image_url\<close> and \<open>error\<close>
  off a value that is neither \<open>null\<close> nor \<open>undefined\<close>. An object parsed from JSON is
  the list of its own properties, the first entry of a key being its value; strings,
  numbers, booleans and arrays have none of these three names, so the read gives
  \<open>undefined\<close>.
\<close>

fun get :: "jsval \<Rightarrow> jsstring \<Rightarrow> jsval" where
  "get (JObj kvs) k = (case map_of kvs k of None \<Rightarrow> JUndefined | Some v \<Rightarrow> v)"
| "get _ k = JUndefined"

text \<open>\<open>a || b\<close> evaluates to \<open>a\<close> when it is truthy and to \<open>b\<close> otherwise.\<close>

definition js_or :: "jsval \<Rightarrow> jsval \<Rightarrow> jsval" where
  "js_or a b = (if truthy a then a else b)"

section \<open>The component's data\<close>

datatype sender = User | Bot

text \<open>
  \<open>interface Message\<close>. The field \<open>text\<close> is declared a string, but a bot message stores
  \<open>data.response || ''\<close> of the untyped reply, so at run time it is any JSON value;
  likewise \<open>imageUrl\<close>, which is \<open>undefined\<close> on a message built without it.
\<close>

record message =
  msg_id :: jsstring
  msg_text :: jsval
  sender :: sender
  timestamp :: int
  imageUrl :: jsval

datatype jsfile = File (file_name: jsstring) (file_bytes: "8 word list")

text \<open>A \<open>FormData\<close>: the appended entries in order, each a string or a file.\<close>

datatype formvalue = FString jsstring | FBlob jsfile

type_synonym formdata = "(jsstring \<times> formvalue) list"

text \<open>How \<open>await fetch(...)\<close> followed by \<open>await res.json()\<close> ends.\<close>

datatype settlement = FetchRejected jsstring | JsonRejected jsstring | Parsed jsval

text \<open>
  The component's state: the four \<open>useState\<close> cells, the \<open>value\<close> of the element behind
  \<open>fileInputRef\<close> (\<open>None\<close> while \<open>fileInputRef.current\<close> is null), the two things the
  handler does to the outside (the requests it has issued, the lines it has logged), and
  the exceptions thrown by state updaters, which reach no \<open>catch\<close> clause of the handler.
\<close>

record state =
  messages :: "message list"
  input :: jsstring
  selectedFile :: "jsfile option"
  isLoading :: bool
  fileInputRef :: "jsstring option"
  requests :: "formdata list"
  console :: "thrown list"
  renderErrors :: "thrown list"

text \<open>The two clock reads made for one message: \<open>Date.now()\<close> and \<open>new Date()\<close>.\<close>

record clock =
  now :: int
  date :: int

definition welcomeMessage :: "int \<Rightarrow> message" where
  "welcomeMessage d =
     \<lparr>msg_id = ascii ''1'',
      msg_text = JStr ([0xD83D, 0xDC4B] @ ascii '' I'' @ [0x27] @ ascii
        ''m here to help analyze X-ray images and provide orthopedic suggestions. Upload an image or ask your query.''),
      sender = Bot, timestamp = d, imageUrl = JUndefined\<rparr>"

definition initial :: "int \<Rightarrow> state" where
  "initial d =
     \<lparr>messages = [welcomeMessage d], input = [], selectedFile = None, isLoading = False,
      fileInputRef = Some [], requests = [], console = [],
      renderErrors = []\<rparr>"

section \<open>The statements of the handler\<close>

text \<open>
  Each effectful statement of \<open>handleSubmit\<close> is an action; the handler is the list of
  actions it performs, in source order, so that the states in between can be observed.
  \<open>e.preventDefault()\<close> acts on the event, not on the component.

  \<open>SetMessages\<close> is \<open>setMessages(prev => [...prev, m])\<close>. The handler only hands the
  updater over; the updater runs later, outside the handler's \<open>try\<close> block. Where the
  message is an object literal inside the updater, evaluating the literal is part of the
  updater: \<open>SetMessages (Inr m)\<close> is an updater that appends \<open>m\<close>, \<open>SetMessages (Inl e)\<close>
  one whose literal throws \<open>e\<close>, so that nothing is appended and the exception surfaces
  outside the handler.
\<close>

datatype action =
    PreventDefault
  | SetMessages "thrown + message"
  | SetInput jsstring
  | SetSelectedFile "jsfile option"
  | SetIsLoading bool
  | Fetch formdata
  | ConsoleError thrown
  | ResetFileInput

fun exec :: "action \<Rightarrow> state \<Rightarrow> state" where
  "exec PreventDefault s = s"
| "exec (SetMessages (Inr m)) s = s\<lparr>messages := messages s @ [m]\<rparr>"
| "exec (SetMessages (Inl e)) s = s\<lparr>renderErrors := renderErrors s @ [e]\<rparr>"
| "exec (SetInput v) s = s\<lparr>input := v\<rparr>"
| "exec (SetSelectedFile f) s = s\<lparr>selectedFile := f\<rparr>"
| "exec (SetIsLoading b) s = s\<lparr>isLoading := b\<rparr>"
| "exec (Fetch fd) s = s\<lparr>requests := requests s @ [fd]\<rparr>"
| "exec (ConsoleError e) s = s\<lparr>console := console s @ [e]\<rparr>"
| "exec ResetFileInput s =
     (case fileInputRef s of None \<Rightarrow> s | Some _ \<Rightarrow> s\<lparr>fileInputRef := Some []\<rparr>)"

definition run :: "action list \<Rightarrow> state \<Rightarrow> state" where
  "run as s = fold exec as s"

text \<open>\<open>if (!input.trim() && !selectedFile) return;\<close>\<close>

definition rejects :: "state \<Rightarrow> bool" where
  "rejects s = (trim (input s) = [] \<and> selectedFile s = None)"

definition userMessage :: "state \<Rightarrow> clock \<Rightarrow> message" where
  "userMessage s c =
     \<lparr>msg_id = int_toString (now c) @ ascii ''-user'', msg_text = JStr (input s),
      sender = User, timestamp = date c, imageUrl = JUndefined\<rparr>"

text \<open>
  The two conditional \<open>formData.append\<close> calls. \<open>input\<close> and \<open>selectedFile\<close> are the
  values the handler closed over, so the earlier \<open>setInput('')\<close> does not change them.
\<close>

definition formData :: "state \<Rightarrow> formdata" where
  "formData s =
     (if trim (input s) \<noteq> [] then [(ascii ''message'', FString (input s))] else [])
     @ (case selectedFile s of None \<Rightarrow> [] | Some f \<Rightarrow> [(ascii ''image'', FBlob f)])"

text \<open>The handler up to \<open>await fetch(...)\<close>.\<close>

definition before_await :: "state \<Rightarrow> clock \<Rightarrow> action list" where
  "before_await s c =
     PreventDefault #
     (if rejects s then []
      else [SetMessages (Inr (userMessage s c)), SetInput [],
            SetIsLoading True, SetSelectedFile None,
            Fetch (formData s)])"

definition botMessage :: "jsval \<Rightarrow> clock \<Rightarrow> message" where
  "botMessage data c =
     \<lparr>msg_id = int_toString (now c) @ ascii ''-bot'',
      msg_text = js_or (get data (ascii ''response'')) (JStr []),
      sender = Bot, timestamp = date c,
      imageUrl = get data (ascii ''annotated_image_url'')\<rparr>"

text \<open>
  The object literal of the error branch, evaluated inside the updater. Its template
  literal converts \<open>data.error\<close> to a string, which may throw.
\<close>

definition errorMessage :: "jsval \<Rightarrow> clock \<Rightarrow> thrown + message" where
  "errorMessage data c =
     (case toString (get data (ascii ''error'')) of
        Inl e \<Rightarrow> Inl e
      | Inr shown \<Rightarrow> Inr
          \<lparr>msg_id = int_toString (now c) @ ascii ''-error'',
           msg_text = JStr (0x26A0 # ascii '' Error: '' @ shown),
           sender = Bot, timestamp = date c, imageUrl = JUndefined\<rparr>)"

text \<open>The object literal of the \<open>catch\<close> clause, also inside its updater; it cannot throw.\<close>

definition fetchErrorMessage :: "clock \<Rightarrow> message" where
  "fetchErrorMessage c =
     \<lparr>msg_id = int_toString (now c) @ ascii ''-fetch-error'',
      msg_text = JStr (0x26A0 # ascii '' Failed to connect to the server.''),
      sender = Bot, timestamp = date c, imageUrl = JUndefined\<rparr>"

text \<open>
  The \<open>try\<close> block from the settlement on: either it throws (\<open>Inl\<close>) or it performs the
  actions of one of its branches. Reading \<open>data.response\<close> off \<open>null\<close> throws a TypeError.
  The error branch throws nothing itself: its template literal is inside the updater.
\<close>

definition try_block :: "settlement \<Rightarrow> clock \<Rightarrow> thrown + action list" where
  "try_block out c =
     (case out of
        FetchRejected e \<Rightarrow> Inl (FetchFailed e)
      | JsonRejected e \<Rightarrow> Inl (BodyNotJson e)
      | Parsed data \<Rightarrow>
          if data = JNull \<or> data = JUndefined then Inl TypeErrorOnNull
          else if truthy (get data (ascii ''response''))
                  \<or> truthy (get data (ascii ''annotated_image_url''))
            then Inr [SetMessages (Inr (botMessage data c))]
          else if truthy (get data (ascii ''error''))
            then Inr [SetMessages (errorMessage data c)]
          else Inr [])"

definition catch_block :: "thrown \<Rightarrow> clock \<Rightarrow> action list" where
  "catch_block e c = [ConsoleError e, SetMessages (Inr (fetchErrorMessage c))]"

definition finally_block :: "action list" where
  "finally_block = [SetIsLoading False, ResetFileInput]"

text \<open>The handler from the settlement of the network call to its end.\<close>

definition after_await :: "settlement \<Rightarrow> clock \<Rightarrow> action list" where
  "after_await out c =
     (case try_block out c of Inl e \<Rightarrow> catch_block e c | Inr as \<Rightarrow> as) @ finally_block"

text \<open>
  One whole call of \<open>handleSubmit\<close> with nothing else happening while it waits: the
  clock \<open>c\<close> is read for the user message, \<open>c'\<close> for the bot message.
\<close>

definition handleSubmit_actions :: "state \<Rightarrow> clock \<Rightarrow> settlement \<Rightarrow> clock \<Rightarrow> action list" where
  "handleSubmit_actions s c out c' =
     (if rejects s then before_await s c else before_await s c @ after_await out c')"

definition handleSubmit :: "state \<Rightarrow> clock \<Rightarrow> settlement \<Rightarrow> clock \<Rightarrow> state" where
  "handleSubmit s c out c' = run (handleSubmit_actions s c out c') s"

section \<open>The component as an event system\<close>

text \<open>
  What can happen to the mounted component: the form is submitted, a pending network
  call settles, the text box changes (\<open>setInput(e.target.value)\<close>), the file picker
  changes (\<open>setSelectedFile(e.target.files?.[0] || null)\<close>).
\<close>

datatype event =
    Submit clock
  | Settle settlement clock
  | InputChange jsstring
  | FileChange "jsfile list option"

fun first_file :: "jsfile list option \<Rightarrow> jsfile option" where
  "first_file None = None"
| "first_file (Some []) = None"
| "first_file (Some (f # _)) = Some f"

fun step :: "event \<Rightarrow> state \<Rightarrow> state" where
  "step (Submit c) s = run (before_await s c) s"
| "step (Settle out c) s = run (after_await out c) s"
| "step (InputChange v) s = exec (SetInput v) s"
| "step (FileChange fs) s = exec (SetSelectedFile (first_file fs)) s"

text \<open>
  The settlements after which a bot message is appended: every failure (the \<open>catch\<close>
  clause), every parsed body in which \<open>response\<close> or \<open>annotated_image_url\<close> is truthy,
  and every parsed body in which \<open>error\<close> is truthy and can be converted to a string.
  Used to state what the handler does; the handler itself is \<open>after_await\<close>.
\<close>

definition answers :: "settlement \<Rightarrow> bool" where
  "answers out =
     (case out of
        Parsed data \<Rightarrow>
          data = JNull \<or> data = JUndefined
          \<or> truthy (get data (ascii ''response''))
          \<or> truthy (get data (ascii ''annotated_image_url''))
          \<or> (truthy (get data (ascii ''error''))
              \<and> (case toString (get data (ascii ''error'')) of
                     Inl _ \<Rightarrow> False | Inr _ \<Rightarrow> True))
      | _ \<Rightarrow> True)"

section \<open>Concrete inputs\<close>

text \<open>States, clock readings and a file on which the theorems below are instantiated.\<close>

definition ex_clock :: clock where
  "ex_clock = \<lparr>now = 1700000000000, date = 1700000000000\<rparr>"

definition ex_clock' :: clock where
  "ex_clock' = \<lparr>now = 1700000000950, date = 1700000000951\<rparr>"

definition xray :: jsfile where
  "xray = File (ascii ''knee.png'') [0x89, 0x50, 0x4E, 0x47]"

text \<open>A draft of a space, a tab and a no-break space, no file.\<close>

definition ex_blank :: state where
  "ex_blank = (initial 0)\<lparr>input := [0x20, 0x09, 0xA0]\<rparr>"

text \<open>A draft with a space on either side of \<open>hi\<close>, no file.\<close>

definition ex_padded :: state where
  "ex_padded = (initial 0)\<lparr>input := ascii '' hi ''\<rparr>"

text \<open>A draft \<open>knee\<close> with a file selected.\<close>

definition ex_file :: state where
  "ex_file = (initial 0)\<lparr>input := ascii ''knee'', selectedFile := Some xray\<rparr>"

text \<open>A draft of two spaces with a file selected.\<close>

definition ex_blank_file :: state where
  "ex_blank_file = (initial 0)\<lparr>input := ascii ''  '', selectedFile := Some xray\<rparr>"

text \<open>A reply with both a response text and an error field, and one with an error only.\<close>

definition ex_both :: "(jsstring \<times> jsval) list" where
  "ex_both = [(ascii ''response'', JStr (ascii ''No fracture.'')),
              (ascii ''error'', JStr (ascii ''bad image''))]"

definition ex_error :: jsval where
  "ex_error = JObj [(ascii ''error'', JStr (ascii ''bad image''))]"

text \<open>A reply whose error is an object with an own \<open>toString\<close> key.\<close>

definition ex_unprintable :: jsval where
  "ex_unprintable =
     JObj [(ascii ''error'', JObj [(ascii ''toString'', JNum (JsNum True (ascii ''1'')))])]"

section \<open>Basic facts\<close>

lemma run_Nil [simp]: "run [] s = s"
  by (simp add: run_def)

lemma run_Cons [simp]: "run (a # as) s = run as (exec a s)"
  by (simp add: run_def)

lemma run_append: "run (as @ bs) s = run bs (run as s)"
  by (simp add: run_def)

lemma dropWhile_all_iff: "(\<forall>x\<in>set (dropWhile P xs). P x) \<longleftrightarrow> list_all P xs"
proof
  assume a: "\<forall>x\<in>set (dropWhile P xs). P x"
  have "dropWhile P xs = []"
  proof (rule ccontr)
    assume ne: "dropWhile P xs \<noteq> []"
    then have "\<not> P (hd (dropWhile P xs))" by (rule hd_dropWhile)
    moreover have "hd (dropWhile P xs) \<in> set (dropWhile P xs)" using ne by simp
    ultimately show False using a by blast
  qed
  then show "list_all P xs" by (simp add: list_all_iff)
next
  assume "list_all P xs"
  then show "\<forall>x\<in>set (dropWhile P xs). P x"
    by (auto simp: list_all_iff dest: set_dropWhileD)
qed

lemma trim_Nil_iff: "trim s = [] \<longleftrightarrow> list_all is_white_space s"
proof -
  have "trim s = [] \<longleftrightarrow> (\<forall>x\<in>set (dropWhile is_white_space s). is_white_space x)"
    by (simp add: trim_def)
  then show ?thesis by (simp add: dropWhile_all_iff)
qed

lemma rejects_iff: "rejects s \<longleftrightarrow> list_all is_white_space (input s) \<and> selectedFile s = None"
  by (simp add: rejects_def trim_Nil_iff)

lemma before_await_accepted:
  "\<not> rejects s \<Longrightarrow> before_await s c =
     [PreventDefault, SetMessages (Inr (userMessage s c)), SetInput [],
      SetIsLoading True, SetSelectedFile None, Fetch (formData s)]"
  by (simp add: before_await_def)

lemma after_await_cases:
  "after_await (FetchRejected e) c = catch_block (FetchFailed e) c @ finally_block"
  "after_await (JsonRejected e) c = catch_block (BodyNotJson e) c @ finally_block"
  "after_await (Parsed JNull) c = catch_block TypeErrorOnNull c @ finally_block"
  "after_await (Parsed JUndefined) c = catch_block TypeErrorOnNull c @ finally_block"
  by (simp_all add: after_await_def try_block_def)

lemma after_await_Parsed:
  "data \<noteq> JNull \<Longrightarrow> data \<noteq> JUndefined \<Longrightarrow>
   after_await (Parsed data) c =
     (if truthy (get data (ascii ''response'')) \<or> truthy (get data (ascii ''annotated_image_url''))
      then [SetMessages (Inr (botMessage data c))]
      else if truthy (get data (ascii ''error'')) then [SetMessages (errorMessage data c)]
      else []) @ finally_block"
  by (simp add: after_await_def try_block_def)

lemma run_before_await:
  "\<not> rejects s \<Longrightarrow> run (before_await s c) s =
     s\<lparr>messages := messages s @ [userMessage s c], input := [], isLoading := True,
       selectedFile := None, requests := requests s @ [formData s]\<rparr>"
  by (simp add: before_await_accepted)

lemma sender_messages [simp]:
  "sender (botMessage data c) = Bot"
  "sender (fetchErrorMessage c) = Bot" "sender (userMessage s c) = User"
  by (simp_all add: botMessage_def fetchErrorMessage_def userMessage_def)

lemma sender_errorMessage: "errorMessage data c = Inr m \<Longrightarrow> sender m = Bot"
  by (auto simp add: errorMessage_def split: sum.splits)

text \<open>What an updater appends: its message, or nothing when its literal throws.\<close>

lemma messages_SetMessages:
  "messages (exec (SetMessages r) s) = messages s @ (case r of Inl e \<Rightarrow> [] | Inr m \<Rightarrow> [m])"
  by (cases r) simp_all

lemma run_finally:
  "run finally_block s = s\<lparr>isLoading := False, fileInputRef := map_option (\<lambda>_. []) (fileInputRef s)\<rparr>"
  by (simp add: finally_block_def split: option.splits)

lemma run_catch:
  "run (catch_block e c) s =
     s\<lparr>console := console s @ [e], messages := messages s @ [fetchErrorMessage c]\<rparr>"
  by (simp add: catch_block_def)

lemma messages_after_await:
  "messages (run (after_await out c) s) = messages s @
     (case out of
        Parsed data \<Rightarrow>
          if data = JNull \<or> data = JUndefined then [fetchErrorMessage c]
          else if truthy (get data (ascii ''response''))
                  \<or> truthy (get data (ascii ''annotated_image_url''))
            then [botMessage data c]
          else if truthy (get data (ascii ''error''))
            then (case errorMessage data c of Inl e \<Rightarrow> [] | Inr m \<Rightarrow> [m])
          else []
      | _ \<Rightarrow> [fetchErrorMessage c])"
proof (cases out)
  case (FetchRejected e)
  then show ?thesis by (simp add: after_await_cases run_append run_catch run_finally)
next
  case (JsonRejected e)
  then show ?thesis by (simp add: after_await_cases run_append run_catch run_finally)
next
  case (Parsed data)
  show ?thesis
  proof (cases "data = JNull \<or> data = JUndefined")
    case True
    then show ?thesis using Parsed
      by (auto simp add: after_await_cases run_append run_catch run_finally)
  next
    case False
    then show ?thesis using Parsed
      by (simp add: after_await_Parsed run_append run_finally messages_SetMessages
            del: exec.simps)
  qed
qed

lemma exec_SetMessages_fields:
  "selectedFile (exec (SetMessages r) s) = selectedFile s"
  "isLoading (exec (SetMessages r) s) = isLoading s"
  "fileInputRef (exec (SetMessages r) s) = fileInputRef s"
  "input (exec (SetMessages r) s) = input s"
  "requests (exec (SetMessages r) s) = requests s"
  by (cases r; simp)+

lemma run_after_await_fields:
  "selectedFile (run (after_await out c) s) = selectedFile s"
  "isLoading (run (after_await out c) s) = False"
  "fileInputRef (run (after_await out c) s) = map_option (\<lambda>_. []) (fileInputRef s)"
  "input (run (after_await out c) s) = input s"
  "requests (run (after_await out c) s) = requests s"
  by (auto simp add: after_await_def run_append run_finally run_catch try_block_def
        exec_SetMessages_fields split: sum.splits settlement.splits)

lemma butlast_before_await:
  "\<not> rejects s \<Longrightarrow> butlast (before_await s c) =
     [PreventDefault, SetMessages (Inr (userMessage s c)), SetInput [],
      SetIsLoading True, SetSelectedFile None]"
  by (simp add: before_await_accepted)

lemma get_error_Cons:
  "get (JObj ((ascii ''error'', e) # kvs)) (ascii ''response'') = get (JObj kvs) (ascii ''response'')"
  "get (JObj ((ascii ''error'', e) # kvs)) (ascii ''annotated_image_url'')
     = get (JObj kvs) (ascii ''annotated_image_url'')"
  by (simp_all add: ascii_def)

lemma messages_exec_cases:
  "messages (exec a s) = messages s \<or> (\<exists>m. messages (exec a s) = messages s @ [m])"
proof (cases a)
  case (SetMessages r)
  then show ?thesis by (cases r) simp_all
qed (simp_all split: option.splits)

lemma prefix_run: "prefix (messages s) (messages (run as s))"
proof (induction as arbitrary: s)
  case Nil
  show ?case by simp
next
  case (Cons a as)
  have "prefix (messages s) (messages (exec a s))"
    using messages_exec_cases [of a s] by auto
  moreover have "prefix (messages (exec a s)) (messages (run as (exec a s)))"
    by (rule Cons.IH)
  ultimately show ?case by (auto intro: prefix_order.trans)
qed

lemma prefix_step: "prefix (messages s) (messages (step e s))"
  by (cases e) (simp_all add: prefix_run del: exec.simps, simp_all)

lemma prefix_steps: "prefix (messages s) (messages (fold step es s))"
proof (induction es arbitrary: s)
  case Nil
  show ?case by simp
next
  case (Cons e es)
  have "prefix (messages s) (messages (step e s))" by (rule prefix_step)
  moreover have "prefix (messages (step e s)) (messages (fold step es (step e s)))"
    by (rule Cons.IH)
  ultimately show ?case by (auto intro: prefix_order.trans)
qed

lemma length_step: "length (messages (step e s)) \<le> Suc (length (messages s))"
proof (cases e)
  case (Submit c)
  then show ?thesis by (cases "rejects s") (simp_all add: run_before_await, simp add: before_await_def)
next
  case (Settle out c)
  then show ?thesis by (simp add: messages_after_await split: settlement.splits sum.splits)
qed simp_all

text \<open>
  The reply \<open>{"error": {"toString": 1}}\<close>: the error branch is taken, the updater's
  template literal throws, so no message is appended and nothing is logged; the
  \<open>finally\<close> block runs as ever.
\<close>

lemma unprintable_error_appends_nothing:
  "step (Settle (Parsed ex_unprintable) c) s =
     s\<lparr>renderErrors := renderErrors s @ [TypeErrorToPrimitive], isLoading := False,
       fileInputRef := map_option (\<lambda>_. []) (fileInputRef s)\<rparr>"
  by (simp add: ex_unprintable_def after_await_def try_block_def errorMessage_def
        finally_block_def ascii_def split: option.splits)

section \<open>The precondition\<close>

text \<open>
  C4. When the draft text is empty or holds white space only and no file is selected,
  the submission does nothing: the handler performs \<open>e.preventDefault()\<close> and returns,
  so no message is appended, no request is issued, and the draft, the selected file and
  the in-flight flag (indeed the whole state) are as before.
\<close>

theorem rejected_submission_is_noop:
  assumes "list_all is_white_space (input s)" and "selectedFile s = None"
  shows "before_await s c = [PreventDefault]
     \<and> handleSubmit_actions s c out c' = [PreventDefault]
     \<and> step (Submit c) s = s
     \<and> handleSubmit s c out c' = s"
  using assms by (simp add: rejects_iff before_await_def handleSubmit_actions_def handleSubmit_def)

theorem rejected_submission_is_noop_witness:
  "list_all is_white_space (input ex_blank) \<and> selectedFile ex_blank = None
   \<and> before_await ex_blank ex_clock = [PreventDefault]
   \<and> handleSubmit ex_blank ex_clock (Parsed (JObj [])) ex_clock' = ex_blank"
  using rejected_submission_is_noop [of ex_blank ex_clock "Parsed (JObj [])" ex_clock']
  by (simp add: ex_blank_def initial_def is_white_space_def)

text \<open>
  C10. When the draft text is not empty but holds white space only, and a file is
  selected, the submission goes ahead: the user message appended carries the draft as
  typed, and the request's payload has no text field and has the file field.
\<close>

theorem whitespace_draft_with_file:
  assumes "input s \<noteq> []" and "list_all is_white_space (input s)" and "selectedFile s = Some f"
  shows "\<not> rejects s
     \<and> messages (step (Submit c) s) = messages s @
          [\<lparr>msg_id = int_toString (now c) @ ascii ''-user'', msg_text = JStr (input s),
            sender = User, timestamp = date c, imageUrl = JUndefined\<rparr>]
     \<and> requests (step (Submit c) s) = requests s @ [[(ascii ''image'', FBlob f)]]"
proof -
  have nr: "\<not> rejects s" using assms(3) by (simp add: rejects_def)
  have "trim (input s) = []" using assms(2) by (simp add: trim_Nil_iff)
  then have "formData s = [(ascii ''image'', FBlob f)]"
    using assms(3) by (simp add: formData_def)
  then show ?thesis
    using nr by (simp add: run_before_await userMessage_def)
qed

theorem whitespace_draft_with_file_witness:
  "input ex_blank_file \<noteq> [] \<and> list_all is_white_space (input ex_blank_file)
   \<and> selectedFile ex_blank_file = Some xray
   \<and> map msg_text (messages (step (Submit ex_clock) ex_blank_file))
        = [msg_text (welcomeMessage 0), JStr (ascii ''  '')]
   \<and> requests (step (Submit ex_clock) ex_blank_file) = [[(ascii ''image'', FBlob xray)]]"
  using whitespace_draft_with_file [of ex_blank_file xray ex_clock]
  by (simp add: ex_blank_file_def initial_def is_white_space_def ascii_def)

section \<open>The payload\<close>

text \<open>
  C2, as the spec words it, fails: the text field does not carry the trimmed draft. For
  the draft \<open>" hi "\<close> the trimmed text is \<open>"hi"\<close>, and the request issued carries
  \<open>" hi "\<close>.
\<close>

theorem payload_text_is_trimmed_counterexample:
  "trim (input ex_padded) = ascii ''hi''
   \<and> requests (step (Submit ex_clock) ex_padded) = [[(ascii ''message'', FString (ascii '' hi ''))]]
   \<and> ascii '' hi '' \<noteq> ascii ''hi''"
  by (simp add: ex_padded_def initial_def before_await_def rejects_def formData_def trim_def
        is_white_space_def ascii_def)

text \<open>
  C2, amended. For every submission whose draft text is not empty after trimming, the
  payload's text field carries the draft text as typed, untrimmed; the file field is
  present exactly when a file is selected, and carries that file; the payload has no
  other field.
\<close>

theorem payload_fields:
  assumes "trim (input s) \<noteq> []"
  shows "requests (step (Submit c) s) = requests s @ [formData s]
     \<and> map_of (formData s) (ascii ''message'') = Some (FString (input s))
     \<and> map_of (formData s) (ascii ''image'') = map_option FBlob (selectedFile s)
     \<and> set (map fst (formData s)) \<subseteq> {ascii ''message'', ascii ''image''}"
proof -
  have nr: "\<not> rejects s" using assms by (simp add: rejects_def)
  show ?thesis
    using assms nr by (auto simp add: run_before_await formData_def ascii_def split: option.splits)
qed

theorem payload_fields_witness:
  "trim (input ex_padded) \<noteq> []
   \<and> map_of (formData ex_padded) (ascii ''message'') = Some (FString (ascii '' hi ''))
   \<and> map_of (formData ex_padded) (ascii ''image'') = None"
  using payload_fields [of ex_padded ex_clock]
  by (simp add: ex_padded_def initial_def trim_def is_white_space_def ascii_def)

section \<open>One user message, at most one bot message\<close>

text \<open>
  C1, as the spec words it, fails: the bot message can be missing. The draft \<open>" hi "\<close>
  passes the precondition; when the server answers \<open>{}\<close> the whole call appends the
  user message and nothing else.
\<close>

theorem bot_message_never_zero_counterexample:
  "\<not> rejects ex_padded
   \<and> messages (handleSubmit ex_padded ex_clock (Parsed (JObj [])) ex_clock')
       = messages ex_padded @ [userMessage ex_padded ex_clock]
   \<and> sender (userMessage ex_padded ex_clock) = User"
  by (simp add: handleSubmit_def handleSubmit_actions_def run_append messages_after_await
        run_before_await rejects_def ex_padded_def initial_def trim_def is_white_space_def ascii_def)

text \<open>
  C1, amended. For every submission that passes the precondition, exactly one user
  message is appended at once; when the network call settles, at most one bot message
  is appended: exactly one if the call fails, if the parsed body has a truthy
  \<open>response\<close> or \<open>annotated_image_url\<close>, or if it has a truthy \<open>error\<close> that can be
  converted to a string; none otherwise (no truthy field among the three, or an \<open>error\<close>
  whose conversion throws inside the updater). The settlement is taken in any state
  \<open>s'\<close>, since the text box and the file picker may have changed while the call was
  pending.
\<close>

theorem one_user_message_at_most_one_bot_message:
  assumes "\<not> rejects s"
  shows "messages (step (Submit c) s) = messages s @ [userMessage s c]
     \<and> sender (userMessage s c) = User
     \<and> (answers out \<longrightarrow>
          (\<exists>m. sender m = Bot \<and> messages (step (Settle out c') s') = messages s' @ [m]
              \<and> messages (handleSubmit s c out c') = messages s @ [userMessage s c, m]))
     \<and> (\<not> answers out \<longrightarrow>
          messages (step (Settle out c') s') = messages s'
          \<and> messages (handleSubmit s c out c') = messages s @ [userMessage s c])"
proof -
  have sub: "messages (run (before_await s c) s) = messages s @ [userMessage s c]"
    using assms by (simp add: run_before_await)
  have whole: "messages (handleSubmit s c out c')
      = messages (run (after_await out c') (run (before_await s c) s))"
    using assms by (simp add: handleSubmit_def handleSubmit_actions_def run_append)
  define r where "r = (case out of
        Parsed data \<Rightarrow>
          if data = JNull \<or> data = JUndefined then [fetchErrorMessage c']
          else if truthy (get data (ascii ''response''))
                  \<or> truthy (get data (ascii ''annotated_image_url''))
            then [botMessage data c']
          else if truthy (get data (ascii ''error''))
            then (case errorMessage data c' of Inl e \<Rightarrow> [] | Inr m \<Rightarrow> [m])
          else []
      | _ \<Rightarrow> [fetchErrorMessage c'])"
  have settle: "messages (run (after_await out c') t) = messages t @ r" for t
    unfolding r_def by (rule messages_after_await)
  show ?thesis
  proof (cases "answers out")
    case True
    then have "\<exists>m. r = [m] \<and> sender m = Bot"
      by (auto simp add: r_def answers_def errorMessage_def split: settlement.splits sum.splits)
    then obtain m where "r = [m]" and "sender m = Bot" by blast
    then show ?thesis using True sub whole settle by auto
  next
    case False
    then have "r = []"
      by (auto simp add: r_def answers_def errorMessage_def split: settlement.splits sum.splits)
    then show ?thesis using False sub whole settle by simp
  qed
qed

theorem one_user_message_at_most_one_bot_message_witness:
  "\<not> rejects ex_file \<and> answers (Parsed (JObj [(ascii ''response'', JStr (ascii ''ok''))]))
   \<and> (\<exists>m. sender m = Bot
        \<and> messages (handleSubmit ex_file ex_clock
             (Parsed (JObj [(ascii ''response'', JStr (ascii ''ok''))])) ex_clock')
           = messages ex_file @ [userMessage ex_file ex_clock, m])"
  using one_user_message_at_most_one_bot_message
    [where s = ex_file and c = ex_clock and c' = ex_clock' and s' = ex_file
       and out = "Parsed (JObj [(ascii ''response'', JStr (ascii ''ok''))])"]
  by (auto simp add: rejects_def ex_file_def initial_def answers_def ascii_def)

section \<open>The selected file and the in-flight flag\<close>

text \<open>
  C3, as the spec words it, fails: the selected-file state does not stay set while the
  request is in flight. With the draft \<open>knee\<close> and a file selected, once the handler
  has reached its \<open>await\<close> the request carrying the file has been issued, the in-flight
  flag is set, and the selected-file state is already \<open>null\<close>.
\<close>

theorem selected_file_kept_in_flight_counterexample:
  "selectedFile ex_file = Some xray
   \<and> requests (step (Submit ex_clock) ex_file)
        = [[(ascii ''message'', FString (ascii ''knee'')), (ascii ''image'', FBlob xray)]]
   \<and> isLoading (step (Submit ex_clock) ex_file)
   \<and> selectedFile (step (Submit ex_clock) ex_file) = None"
  by (simp add: ex_file_def initial_def before_await_def rejects_def formData_def trim_def
        is_white_space_def ascii_def)

text \<open>
  C3, amended. For every submission with a selected file, the selected-file state is
  cleared when the request is dispatched: \<open>setSelectedFile(null)\<close> comes before the call
  of \<open>fetch\<close>, whose payload carries the file. After that the handler does not write the
  selected-file state again: a file picked while the request is in flight becomes the
  selected file, a change of the text box leaves it alone, and the settlement of the
  network call leaves it exactly as it finds it and resets only the file picker's value.
\<close>

theorem selected_file_cleared_at_dispatch:
  assumes "selectedFile s = Some f"
  shows "before_await s c = butlast (before_await s c) @ [Fetch (formData s)]
     \<and> (ascii ''image'', FBlob f) \<in> set (formData s)
     \<and> selectedFile (run (butlast (before_await s c)) s) = None
     \<and> requests (run (butlast (before_await s c)) s) = requests s
     \<and> selectedFile (step (Submit c) s) = None
     \<and> selectedFile (step (FileChange fs) (step (Submit c) s)) = first_file fs
     \<and> selectedFile (step (InputChange v) s') = selectedFile s'
     \<and> selectedFile (step (Settle out c') s') = selectedFile s'
     \<and> fileInputRef (step (Settle out c') s') = map_option (\<lambda>_. []) (fileInputRef s')"
proof -
  have nr: "\<not> rejects s" using assms by (simp add: rejects_def)
  have "(ascii ''image'', FBlob f) \<in> set (formData s)"
    using assms by (simp add: formData_def)
  then show ?thesis
    using nr by (simp add: butlast_before_await before_await_accepted run_after_await_fields)
qed

theorem selected_file_cleared_at_dispatch_witness:
  "selectedFile ex_file = Some xray
   \<and> (ascii ''image'', FBlob xray) \<in> set (formData ex_file)
   \<and> selectedFile (run (butlast (before_await ex_file ex_clock)) ex_file) = None
   \<and> selectedFile (step (Submit ex_clock) ex_file) = None
   \<and> selectedFile (step (FileChange (Some [xray])) (step (Submit ex_clock) ex_file)) = Some xray
   \<and> selectedFile (step (Settle (Parsed (JObj [])) ex_clock')
          (step (FileChange (Some [xray])) (step (Submit ex_clock) ex_file))) = Some xray"
  using selected_file_cleared_at_dispatch
    [where s = ex_file and f = xray and c = ex_clock and c' = ex_clock'
       and fs = "Some [xray]"
       and s' = "step (FileChange (Some [xray])) (step (Submit ex_clock) ex_file)"
       and out = "Parsed (JObj [])"]
  by (simp add: ex_file_def initial_def)

text \<open>
  C5. For every submission that passes the precondition, the in-flight flag is set
  before the request is issued (in the state in which \<open>fetch\<close> is called the flag is
  true and the request not yet among those issued), and it is false after the call has
  settled, whatever the settlement and whatever state it is taken in. Every exception of
  the \<open>try\<close> block reaches the \<open>catch\<close> clause, which does not throw, so the handler has
  no other way out.
\<close>

theorem in_flight_flag:
  assumes "\<not> rejects s"
  shows "before_await s c = butlast (before_await s c) @ [Fetch (formData s)]
     \<and> isLoading (run (butlast (before_await s c)) s)
     \<and> requests (run (butlast (before_await s c)) s) = requests s
     \<and> isLoading (step (Submit c) s)
     \<and> requests (step (Submit c) s) = requests s @ [formData s]
     \<and> \<not> isLoading (step (Settle out c') s')
     \<and> \<not> isLoading (handleSubmit s c out c')"
  using assms
  by (simp add: butlast_before_await before_await_accepted run_after_await_fields
        handleSubmit_def handleSubmit_actions_def run_append)

theorem in_flight_flag_witness:
  "\<not> rejects ex_padded
   \<and> isLoading (run (butlast (before_await ex_padded ex_clock)) ex_padded)
   \<and> isLoading (step (Submit ex_clock) ex_padded)
   \<and> \<not> isLoading (step (Settle (FetchRejected (ascii ''Failed to fetch'')) ex_clock')
          (step (Submit ex_clock) ex_padded))
   \<and> \<not> isLoading (handleSubmit ex_padded ex_clock (FetchRejected (ascii ''Failed to fetch'')) ex_clock')"
  using in_flight_flag
    [where s = ex_padded and c = ex_clock and c' = ex_clock'
       and s' = "step (Submit ex_clock) ex_padded"
       and out = "FetchRejected (ascii ''Failed to fetch'')"]
  by (simp add: rejects_def ex_padded_def initial_def trim_def is_white_space_def ascii_def)

section \<open>The reply\<close>

text \<open>
  C6. For every parsed response object: if \<open>response\<close> or \<open>annotated_image_url\<close> is
  truthy (a response text that is not empty, an image URL), the settlement appends
  exactly one bot message to the sequence, with that text (the empty string when
  \<open>response\<close> is falsy) and that image reference, it logs and throws nothing, and the
  state it leads to is the same whatever \<open>error\<close> field is put on the object. Only when
  neither is truthy does the \<open>error\<close> field decide: a truthy \<open>error\<close> appends the error
  message built from its string form (nothing when that conversion throws), a falsy
  one appends nothing.
\<close>

theorem success_checked_before_error:
  "(truthy (get (JObj kvs) (ascii ''response''))
      \<or> truthy (get (JObj kvs) (ascii ''annotated_image_url'')) \<longrightarrow>
      messages (step (Settle (Parsed (JObj kvs)) c) s) = messages s @
        [\<lparr>msg_id = int_toString (now c) @ ascii ''-bot'',
          msg_text = (if truthy (get (JObj kvs) (ascii ''response''))
                      then get (JObj kvs) (ascii ''response'') else JStr []),
          sender = Bot, timestamp = date c,
          imageUrl = get (JObj kvs) (ascii ''annotated_image_url'')\<rparr>]
      \<and> console (step (Settle (Parsed (JObj kvs)) c) s) = console s
      \<and> renderErrors (step (Settle (Parsed (JObj kvs)) c) s) = renderErrors s
      \<and> step (Settle (Parsed (JObj ((ascii ''error'', e) # kvs))) c) s
          = step (Settle (Parsed (JObj kvs)) c) s)
   \<and> (\<not> truthy (get (JObj kvs) (ascii ''response''))
      \<and> \<not> truthy (get (JObj kvs) (ascii ''annotated_image_url'')) \<longrightarrow>
      messages (step (Settle (Parsed (JObj kvs)) c) s) = messages s @
        (if truthy (get (JObj kvs) (ascii ''error''))
         then (case toString (get (JObj kvs) (ascii ''error'')) of
                 Inl _ \<Rightarrow> []
               | Inr shown \<Rightarrow>
                   [\<lparr>msg_id = int_toString (now c) @ ascii ''-error'',
                     msg_text = JStr (0x26A0 # ascii '' Error: '' @ shown),
                     sender = Bot, timestamp = date c, imageUrl = JUndefined\<rparr>])
         else []))"
proof -
  have msgs: "messages (step (Settle (Parsed (JObj kvs)) c) s) = messages s @
      (if truthy (get (JObj kvs) (ascii ''response''))
            \<or> truthy (get (JObj kvs) (ascii ''annotated_image_url''))
       then [botMessage (JObj kvs) c]
       else if truthy (get (JObj kvs) (ascii ''error''))
         then (case errorMessage (JObj kvs) c of Inl e \<Rightarrow> [] | Inr m \<Rightarrow> [m])
       else [])"
    by (simp add: messages_after_await del: get.simps)
  have quiet: "console (step (Settle (Parsed (JObj kvs)) c) s) = console s
      \<and> renderErrors (step (Settle (Parsed (JObj kvs)) c) s) = renderErrors s"
    if "truthy (get (JObj kvs) (ascii ''response''))
          \<or> truthy (get (JObj kvs) (ascii ''annotated_image_url''))"
    using that by (simp add: after_await_Parsed run_append run_finally del: get.simps)
  have same: "after_await (Parsed (JObj ((ascii ''error'', e) # kvs))) c
      = after_await (Parsed (JObj kvs)) c"
    if "truthy (get (JObj kvs) (ascii ''response''))
          \<or> truthy (get (JObj kvs) (ascii ''annotated_image_url''))"
    using that by (simp add: after_await_Parsed get_error_Cons botMessage_def del: get.simps)
  show ?thesis
    using msgs quiet same
    by (auto simp add: botMessage_def js_or_def errorMessage_def
          split: sum.splits simp del: get.simps)
qed

theorem success_checked_before_error_witness:
  "truthy (get (JObj ex_both) (ascii ''response''))
   \<and> truthy (get (JObj ex_both) (ascii ''error''))
   \<and> messages (step (Settle (Parsed (JObj ex_both)) ex_clock') (initial 0)) =
        [welcomeMessage 0,
         \<lparr>msg_id = ascii ''1700000000950-bot'', msg_text = JStr (ascii ''No fracture.''),
          sender = Bot, timestamp = 1700000000951, imageUrl = JUndefined\<rparr>]
   \<and> console (step (Settle (Parsed (JObj ex_both)) ex_clock') (initial 0)) = []"
  using success_checked_before_error [of ex_both ex_clock' "initial 0"]
  by (simp add: ex_both_def ex_clock'_def initial_def ascii_def int_toString_def digits.simps)

text \<open>
  C8. For every parsed response in which neither \<open>response\<close> nor
  \<open>annotated_image_url\<close> is truthy and \<open>error\<close> is a string \<open>M\<close> that is not empty,
  exactly one bot message is appended, its text is the warning sign U+26A0 followed by
  \<open>" Error: "\<close> and \<open>M\<close>, and it has no image reference. The witness is the reply
  \<open>{"error": "bad image"}\<close>.
\<close>

theorem server_error_message:
  assumes "\<not> truthy (get data (ascii ''response''))"
    and "\<not> truthy (get data (ascii ''annotated_image_url''))"
    and "get data (ascii ''error'') = JStr M" and "M \<noteq> []"
  shows "messages (step (Settle (Parsed data) c) s) = messages s @
          [\<lparr>msg_id = int_toString (now c) @ ascii ''-error'',
            msg_text = JStr (0x26A0 # ascii '' Error: '' @ M),
            sender = Bot, timestamp = date c, imageUrl = JUndefined\<rparr>]"
proof -
  have "data \<noteq> JNull" and "data \<noteq> JUndefined" using assms(3) by auto
  then show ?thesis
    using assms by (simp add: messages_after_await errorMessage_def)
qed

theorem server_error_message_witness:
  "get ex_error (ascii ''error'') = JStr (ascii ''bad image'')
   \<and> messages (step (Settle (Parsed ex_error) ex_clock') (initial 0)) =
        [welcomeMessage 0,
         \<lparr>msg_id = ascii ''1700000000950-error'',
          msg_text = JStr (0x26A0 # ascii '' Error: bad image''),
          sender = Bot, timestamp = 1700000000951, imageUrl = JUndefined\<rparr>]"
  using server_error_message [of ex_error "ascii ''bad image''" ex_clock' "initial 0"]
  by (simp add: ex_error_def ex_clock'_def initial_def ascii_def int_toString_def digits.simps)

text \<open>
  C9. When \<open>fetch\<close> rejects, when the body is not JSON, and also when the body is the
  JSON \<open>null\<close>, exactly one bot message is appended, its text is the warning sign
  U+26A0 followed by \<open>" Failed to connect to the server."\<close>, it has no image reference,
  and the error \<open>e\<close> itself goes to the console only: the message does not depend on it.
\<close>

theorem transport_failure_message:
  "messages (step (Settle (FetchRejected e) c) s) = messages s @
      [\<lparr>msg_id = int_toString (now c) @ ascii ''-fetch-error'',
        msg_text = JStr (0x26A0 # ascii '' Failed to connect to the server.''),
        sender = Bot, timestamp = date c, imageUrl = JUndefined\<rparr>]
   \<and> console (step (Settle (FetchRejected e) c) s) = console s @ [FetchFailed e]
   \<and> messages (step (Settle (JsonRejected e) c) s) = messages s @
      [\<lparr>msg_id = int_toString (now c) @ ascii ''-fetch-error'',
        msg_text = JStr (0x26A0 # ascii '' Failed to connect to the server.''),
        sender = Bot, timestamp = date c, imageUrl = JUndefined\<rparr>]
   \<and> console (step (Settle (JsonRejected e) c) s) = console s @ [BodyNotJson e]
   \<and> messages (step (Settle (Parsed JNull) c) s) = messages s @
      [\<lparr>msg_id = int_toString (now c) @ ascii ''-fetch-error'',
        msg_text = JStr (0x26A0 # ascii '' Failed to connect to the server.''),
        sender = Bot, timestamp = date c, imageUrl = JUndefined\<rparr>]
   \<and> console (step (Settle (Parsed JNull) c) s) = console s @ [TypeErrorOnNull]"
  by (simp add: after_await_cases run_append run_catch run_finally fetchErrorMessage_def)

section \<open>The message sequence\<close>

text \<open>
  C7. The message sequence is append-only. Every statement of the handler leaves it as
  it is or adds exactly one message at its end; every event extends it by at most one
  message, the old sequence staying in front; so after any sequence of events the
  sequence it started from is a prefix of the result, and from the initial state the
  first message is the seeded welcome message of the bot.
\<close>

theorem messages_append_only:
  "(messages (exec a s) = messages s \<or> (\<exists>m. messages (exec a s) = messages s @ [m]))
   \<and> prefix (messages s) (messages (step e s))
   \<and> length (messages (step e s)) \<le> Suc (length (messages s))
   \<and> prefix (messages s) (messages (fold step es s))
   \<and> prefix [welcomeMessage d] (messages (fold step es (initial d)))"
proof -
  have "prefix (messages (initial d)) (messages (fold step es (initial d)))"
    by (rule prefix_steps)
  then have "prefix [welcomeMessage d] (messages (fold step es (initial d)))"
    by (simp add: initial_def)
  then show ?thesis
    using messages_exec_cases prefix_step prefix_steps length_step by blast
qed

end
